theory Spec2Isabelle
  imports Main
begin

section \<open>JavaScript values and the text held in localStorage\<close>

text \<open>
  The hook keeps one lease record per application in \<^verbatim>\<open>localStorage\<close>, as JSON text under
  the key \<^verbatim>\<open>`${storagePrefix}-${appName}`\<close>. What the code does with a stored string
  depends only on three things: whether the string is empty, whether \<^verbatim>\<open>JSON.parse\<close>
  accepts it, and the value it parses to. A stored string is therefore represented by
  that outcome. Numbers are the integers (\<^verbatim>\<open>Date.now()\<close> is an integer number of
  milliseconds); JSON texts holding other numbers are outside the model. An object is
  the list of its members, each name once.
\<close>

datatype jsval =
    JNull
  | JBool bool
  | JNum int
  | JStr string
  | JArr "jsval list"
  | JObj "(string \<times> jsval) list"

datatype stored =
    EmptyString   \<comment> \<open>the string of length 0\<close>
  | Malformed     \<comment> \<open>a non-empty string that \<^verbatim>\<open>JSON.parse\<close> rejects\<close>
  | Json jsval    \<comment> \<open>a string that \<^verbatim>\<open>JSON.parse\<close> turns into the value\<close>

datatype error = StorageError | SyntaxError

datatype number = Num int | NaN

text \<open>\<^verbatim>\<open>!record\<close>: the falsy values among those JSON can produce.\<close>

fun truthy :: "jsval \<Rightarrow> bool" where
  "truthy JNull = False"
| "truthy (JBool b) = b"
| "truthy (JNum n) = (n \<noteq> 0)"
| "truthy (JStr s) = (s \<noteq> [])"
| "truthy (JArr xs) = True"
| "truthy (JObj kvs) = True"

text \<open>
  \<^verbatim>\<open>record.timestamp\<close> and \<^verbatim>\<open>record.id\<close> on a truthy value: an object's own member, and
  \<^verbatim>\<open>undefined\<close> (here \<open>None\<close>) on a number, a boolean, a string or an array, none of
  which has a property of either name.
\<close>

fun timestamp_of :: "jsval \<Rightarrow> jsval option" where
  "timestamp_of (JObj kvs) = map_of kvs ''timestamp''"
| "timestamp_of v = None"

fun id_of :: "jsval \<Rightarrow> jsval option" where
  "id_of (JObj kvs) = map_of kvs ''id''"
| "id_of v = None"

text \<open>
  The operand conversion of \<^verbatim>\<open>now - record.timestamp\<close>, on \<^verbatim>\<open>undefined\<close> and on the
  primitive values where it is a matter of one line. Strings, arrays and objects go
  through the numeric-literal grammar and \<^verbatim>\<open>ToPrimitive\<close> (which yields numbers that
  are not integers, and throws on an object with a member named \<^verbatim>\<open>toString\<close>). The
  function is left unspecified on them: what is proved below either holds whatever such
  a timestamp converts to, or is stated for a numeric or an absent timestamp.
\<close>

fun toNumber :: "jsval option \<Rightarrow> number" where
  "toNumber None = NaN"
| "toNumber (Some JNull) = Num 0"
| "toNumber (Some (JBool b)) = Num (if b then 1 else 0)"
| "toNumber (Some (JNum n)) = Num n"

fun minus_number :: "int \<Rightarrow> number \<Rightarrow> number" where
  "minus_number a (Num b) = Num (a - b)"
| "minus_number a NaN = NaN"

fun greater_number :: "number \<Rightarrow> int \<Rightarrow> bool" where
  "greater_number (Num a) b = (b < a)"
| "greater_number NaN b = False"

text \<open>
  \<^verbatim>\<open>now - record.timestamp > timeout\<close>; every comparison with \<^verbatim>\<open>NaN\<close> is false. The code
  computes in IEEE-754 doubles, the model in the integers. On integer-valued operands
  the two agree as long as the difference is at most \<^verbatim>\<open>2^53\<close> in absolute value (it is
  then exact) or the timeout is below \<^verbatim>\<open>2^53\<close> in absolute value (rounding a larger
  difference cannot take it across the timeout). Beyond both, the code rounds the
  difference to the nearest double and the model does not: with a timeout of \<^verbatim>\<open>2^53\<close>,
  a timestamp of \<^verbatim>\<open>-2^53\<close> and the time 1 the code finds the record not expired, the
  model finds it expired. What is proved below about the comparison is stated inside
  that range.
\<close>

definition expired :: "int \<Rightarrow> jsval \<Rightarrow> int \<Rightarrow> bool" where
  "expired now record timeout =
     greater_number (minus_number now (toNumber (timestamp_of record))) timeout"

text \<open>\<^verbatim>\<open>record.id === currentTabId\<close>: strict equality with a string.\<close>

definition id_is :: "jsval \<Rightarrow> string \<Rightarrow> bool" where
  "id_is record currentTabId = (id_of record = Some (JStr currentTabId))"

record TabRecord =
  id_rec :: string
  timestamp_rec :: int

text \<open>\<^verbatim>\<open>JSON.stringify(record)\<close>, as the text that parses back to the two members.\<close>

definition stringify :: "TabRecord \<Rightarrow> stored" where
  "stringify r = Json (JObj [(''id'', JStr (id_rec r)), (''timestamp'', JNum (timestamp_rec r))])"


section \<open>The host: clock and localStorage\<close>

text \<open>
  \<open>now\<close> is what \<^verbatim>\<open>Date.now()\<close> returns during a call. Each \<^verbatim>\<open>localStorage\<close> method may
  throw (storage disabled, quota exceeded); whether it does during a call is an input.
\<close>

record host =
  now :: int
  getItemThrows :: bool
  setItemThrows :: bool
  removeItemThrows :: bool

type_synonym storage = "string \<Rightarrow> stored option"

definition getItem :: "host \<Rightarrow> storage \<Rightarrow> string \<Rightarrow> error + stored option" where
  "getItem h ls k = (if getItemThrows h then Inl StorageError else Inr (ls k))"

definition setItem :: "host \<Rightarrow> storage \<Rightarrow> string \<Rightarrow> stored \<Rightarrow> error + storage" where
  "setItem h ls k v = (if setItemThrows h then Inl StorageError else Inr (ls(k \<mapsto> v)))"

definition removeItem :: "host \<Rightarrow> storage \<Rightarrow> string \<Rightarrow> error + storage" where
  "removeItem h ls k = (if removeItemThrows h then Inl StorageError else Inr (ls(k := None)))"

fun JSON_parse :: "stored \<Rightarrow> error + jsval" where
  "JSON_parse EmptyString = Inl SyntaxError"
| "JSON_parse Malformed = Inl SyntaxError"
| "JSON_parse (Json v) = Inr v"


section \<open>The hook \<^verbatim>\<open>useSingleTabEnforcer\<close>\<close>

record config =
  appName :: string
  timeout :: int
  interval :: int
  useBroadcastChannel :: bool
  storagePrefix :: string

definition DEFAULT_CONFIG :: config where
  "DEFAULT_CONFIG =
     \<lparr>appName = ''my-app'', timeout = 15000, interval = 10000,
      useBroadcastChannel = True, storagePrefix = ''single-tab''\<rparr>"

definition storageKey :: "config \<Rightarrow> string" where
  "storageKey cfg = storagePrefix cfg @ ''-'' @ appName cfg"

datatype callback = OnBecomeLeader | OnLoseLeadership | OnTabDetected

datatype message = TabClosing string

text \<open>
  One mounted hook together with the store it shares with the other tabs. \<open>calls\<close> lists
  the configuration callbacks invoked so far, \<open>posted\<close> the messages sent on the
  BroadcastChannel, \<open>timers\<close> the delays of the pending \<^verbatim>\<open>setTimeout(checkLeadership, d)\<close>
  calls, and \<open>caught\<close> the exceptions that ended in a \<^verbatim>\<open>catch\<close> block, oldest first.
\<close>

record hook =
  tabId :: string
  isLeader :: bool
  tabCount :: nat
  isChecking :: bool
  previousLeaderState :: bool
  broadcastChannelRef :: bool
  storage :: storage
  calls :: "callback list"
  posted :: "message list"
  timers :: "nat list"
  caught :: "error list"

definition getCurrentRecord :: "config \<Rightarrow> host \<Rightarrow> hook \<Rightarrow> jsval \<times> hook" where
  "getCurrentRecord cfg h st =
     (case getItem h (storage st) (storageKey cfg) of
        Inl e \<Rightarrow> (JNull, st\<lparr>caught := caught st @ [e]\<rparr>)
      | Inr None \<Rightarrow> (JNull, st)
      | Inr (Some s) \<Rightarrow>
          if s = EmptyString then (JNull, st)
          else (case JSON_parse s of
                  Inl e \<Rightarrow> (JNull, st\<lparr>caught := caught st @ [e]\<rparr>)
                | Inr v \<Rightarrow> (v, st)))"

definition setTabRecord :: "config \<Rightarrow> host \<Rightarrow> TabRecord \<Rightarrow> hook \<Rightarrow> hook" where
  "setTabRecord cfg h r st =
     (case setItem h (storage st) (storageKey cfg) (stringify r) of
        Inl e \<Rightarrow> st\<lparr>caught := caught st @ [e]\<rparr>
      | Inr ls \<Rightarrow> st\<lparr>storage := ls\<rparr>)"

definition removeTabRecord :: "config \<Rightarrow> host \<Rightarrow> hook \<Rightarrow> hook" where
  "removeTabRecord cfg h st =
     (case removeItem h (storage st) (storageKey cfg) of
        Inl e \<Rightarrow> st\<lparr>caught := caught st @ [e]\<rparr>
      | Inr ls \<Rightarrow> st\<lparr>storage := ls\<rparr>)"

definition checkLeadership :: "config \<Rightarrow> host \<Rightarrow> hook \<Rightarrow> hook" where
  "checkLeadership cfg h st0 =
     (let (record, st) = getCurrentRecord cfg h (st0\<lparr>isChecking := True\<rparr>);
          currentTabId = tabId st;
          st' =
            (if \<not> truthy record \<or> expired (now h) record (timeout cfg) then
               (setTabRecord cfg h \<lparr>id_rec = currentTabId, timestamp_rec = now h\<rparr> st)
                 \<lparr>isLeader := True, tabCount := 1\<rparr>
             else if id_is record currentTabId then
               (setTabRecord cfg h \<lparr>id_rec = currentTabId, timestamp_rec = now h\<rparr> st)
                 \<lparr>isLeader := True, tabCount := 1\<rparr>
             else
               st\<lparr>isLeader := False, tabCount := 2, calls := calls st @ [OnTabDetected]\<rparr>)
      in st'\<lparr>isChecking := False\<rparr>)"

definition forceLeadership :: "config \<Rightarrow> host \<Rightarrow> hook \<Rightarrow> hook" where
  "forceLeadership cfg h st =
     (setTabRecord cfg h \<lparr>id_rec = tabId st, timestamp_rec = now h\<rparr> st)
       \<lparr>isLeader := True, tabCount := 1\<rparr>"

text \<open>The effect on \<^verbatim>\<open>[isLeader, onBecomeLeader, onLoseLeadership, debug]\<close>.\<close>

definition leaderEffect :: "hook \<Rightarrow> hook" where
  "leaderEffect st =
     (if previousLeaderState st \<noteq> isLeader st then
        st\<lparr>calls := calls st @ [if isLeader st then OnBecomeLeader else OnLoseLeadership],
           previousLeaderState := isLeader st\<rparr>
      else st)"

text \<open>
  \<^verbatim>\<open>cleanup\<close>, as the \<^verbatim>\<open>beforeunload\<close> listener calls it and as the destructor of its effect
  calls it when \<^verbatim>\<open>isLeader\<close> has changed: the channel, if there is one, is open then.
  (When the component unmounts, the effect that owns the channel has closed it before
  this destructor runs, and \<^verbatim>\<open>postMessage\<close> throws after the store has been dealt with;
  the unmount of the full hook is not among the events below.)
\<close>

definition cleanup :: "config \<Rightarrow> host \<Rightarrow> hook \<Rightarrow> hook" where
  "cleanup cfg h st0 =
     (let (record, st) = getCurrentRecord cfg h st0;
          st1 = (if truthy record \<and> id_is record (tabId st) then removeTabRecord cfg h st else st)
      in if broadcastChannelRef st1
         then st1\<lparr>posted := posted st1 @ [TabClosing (tabId st1)]\<rparr>
         else st1)"

definition handleBeforeUnload :: "config \<Rightarrow> host \<Rightarrow> hook \<Rightarrow> hook" where
  "handleBeforeUnload cfg h st = cleanup cfg h st"

text \<open>\<open>hidden\<close> is \<^verbatim>\<open>document.visibilityState === 'hidden'\<close>.\<close>

definition handleVisibilityChange :: "config \<Rightarrow> host \<Rightarrow> bool \<Rightarrow> hook \<Rightarrow> hook" where
  "handleVisibilityChange cfg h hidden st =
     (if hidden then
        (if isLeader st
         then setTabRecord cfg h \<lparr>id_rec = tabId st, timestamp_rec = now h\<rparr> st
         else st)
      else st)"

text \<open>The BroadcastChannel listener; \<open>ty\<close> is \<^verbatim>\<open>event.data.type\<close>.\<close>

definition handleMessage :: "string \<Rightarrow> hook \<Rightarrow> hook" where
  "handleMessage ty st =
     (if ty = ''leadership-change'' then st\<lparr>timers := timers st @ [100]\<rparr> else st)"

text \<open>The \<^verbatim>\<open>storage\<close> event listener; \<open>key\<close> is \<^verbatim>\<open>event.key\<close>, \<^verbatim>\<open>null\<close> after a \<^verbatim>\<open>clear()\<close>.\<close>

definition handleStorageChange :: "config \<Rightarrow> host \<Rightarrow> string option \<Rightarrow> hook \<Rightarrow> hook" where
  "handleStorageChange cfg h key st =
     (if key = Some (storageKey cfg) then checkLeadership cfg h st else st)"


section \<open>Commits and events\<close>

text \<open>
  React runs the passive effects after each committed render. With referentially stable
  callbacks (the defaults are), the dependency lists of the effects change only with
  \<^verbatim>\<open>isLeader\<close>: then the destructor of the effect that registers the \<^verbatim>\<open>beforeunload\<close> and
  \<^verbatim>\<open>visibilitychange\<close> listeners runs first, and it calls \<^verbatim>\<open>cleanup()\<close>; the effect that
  reports the change of leadership runs after it. Each event below is one task of the
  event loop, followed by one commit.
\<close>

definition commit :: "config \<Rightarrow> host \<Rightarrow> hook \<Rightarrow> hook" where
  "commit cfg h st =
     (if previousLeaderState st \<noteq> isLeader st then leaderEffect (cleanup cfg h st) else st)"

datatype event =
    IntervalTick                  \<comment> \<open>\<^verbatim>\<open>setInterval(checkLeadership, interval)\<close>, and the initial check\<close>
  | StorageEvent "string option"  \<comment> \<open>a \<^verbatim>\<open>storage\<close> event with its key\<close>
  | ChannelMessage string         \<comment> \<open>a BroadcastChannel message with its type\<close>
  | TimeoutFires                  \<comment> \<open>the oldest pending \<^verbatim>\<open>setTimeout\<close> runs\<close>
  | ForceLeadership               \<comment> \<open>the caller invokes \<^verbatim>\<open>forceLeadership()\<close>\<close>
  | VisibilityChange bool         \<comment> \<open>\<^verbatim>\<open>visibilitychange\<close>; the flag says hidden\<close>
  | BeforeUnload
  | OtherTab "stored option"      \<comment> \<open>another tab sets the key to a text, or removes it\<close>

fun dispatch :: "config \<Rightarrow> host \<Rightarrow> event \<Rightarrow> hook \<Rightarrow> hook" where
  "dispatch cfg h IntervalTick st = checkLeadership cfg h st"
| "dispatch cfg h (StorageEvent key) st = handleStorageChange cfg h key st"
| "dispatch cfg h (ChannelMessage ty) st =
     (if broadcastChannelRef st then handleMessage ty st else st)"
| "dispatch cfg h TimeoutFires st =
     (case timers st of [] \<Rightarrow> st | d # ds \<Rightarrow> checkLeadership cfg h (st\<lparr>timers := ds\<rparr>))"
| "dispatch cfg h ForceLeadership st = forceLeadership cfg h st"
| "dispatch cfg h (VisibilityChange hidden) st = handleVisibilityChange cfg h hidden st"
| "dispatch cfg h BeforeUnload st = handleBeforeUnload cfg h st"
| "dispatch cfg h (OtherTab v) st = st\<lparr>storage := (storage st)(storageKey cfg := v)\<rparr>"

definition step :: "config \<Rightarrow> host \<Rightarrow> event \<Rightarrow> hook \<Rightarrow> hook" where
  "step cfg h ev st = commit cfg h (dispatch cfg h ev st)"

text \<open>The states after each event of a run, in order.\<close>

fun run :: "config \<Rightarrow> (host \<times> event) list \<Rightarrow> hook \<Rightarrow> hook list" where
  "run cfg [] st = []"
| "run cfg ((h, ev) # es) st = step cfg h ev st # run cfg es (step cfg h ev st)"

text \<open>The states after each of a series of calls of \<^verbatim>\<open>checkLeadership\<close>.\<close>

fun reconciliations :: "config \<Rightarrow> host list \<Rightarrow> hook \<Rightarrow> hook list" where
  "reconciliations cfg [] st = []"
| "reconciliations cfg (h # hs) st =
     checkLeadership cfg h st # reconciliations cfg hs (checkLeadership cfg h st)"

text \<open>The state of a hook when it has mounted; \<open>chan\<close> says the host has BroadcastChannel.\<close>

definition mount :: "config \<Rightarrow> string \<Rightarrow> bool \<Rightarrow> storage \<Rightarrow> hook" where
  "mount cfg tid chan ls =
     \<lparr>tabId = tid, isLeader = False, tabCount = 1, isChecking = True,
      previousLeaderState = False, broadcastChannelRef = (useBroadcastChannel cfg \<and> chan),
      storage = ls, calls = [], posted = [], timers = [], caught = []\<rparr>"

text \<open>Changes of a flag along a sequence of its values, from the value before.\<close>

fun rising :: "bool \<Rightarrow> bool list \<Rightarrow> nat" where
  "rising prev [] = 0"
| "rising prev (b # bs) = (if \<not> prev \<and> b then 1 else 0) + rising b bs"

fun falling :: "bool \<Rightarrow> bool list \<Rightarrow> nat" where
  "falling prev [] = 0"
| "falling prev (b # bs) = (if prev \<and> \<not> b then 1 else 0) + falling b bs"

text \<open>The timestamp of the record in the store, when the store holds one.\<close>

definition storedTimestamp :: "config \<Rightarrow> hook \<Rightarrow> int option" where
  "storedTimestamp cfg st =
     (case storage st (storageKey cfg) of
        Some (Json v) \<Rightarrow> (case timestamp_of v of Some (JNum t) \<Rightarrow> Some t | _ \<Rightarrow> None)
      | _ \<Rightarrow> None)"


section \<open>The two compact hooks\<close>

text \<open>
  The repository holds two shorter versions of the hook (\<^verbatim>\<open>unnamed/part_002\<close> and
  \<^verbatim>\<open>unnamed/part_003\<close>). They keep \<^verbatim>\<open>isLeader\<close> and \<^verbatim>\<open>tabId\<close> only, fix the key to
  \<^verbatim>\<open>`single-tab-${appName}`\<close>, and wrap the whole of \<^verbatim>\<open>checkLeadership\<close> in one
  \<^verbatim>\<open>try\<close>/\<^verbatim>\<open>catch\<close>. The definitions below are the parts of them that the properties
  of this theory speak about, on the same state record.
\<close>

definition storageKey_compact :: "config \<Rightarrow> string" where
  "storageKey_compact cfg = ''single-tab-'' @ appName cfg"



text \<open>\<^verbatim>\<open>handleStorage\<close> of \<^verbatim>\<open>part_002\<close> (and, word for word, of \<^verbatim>\<open>part_003\<close>).\<close>

definition handleStorage_002 :: "config \<Rightarrow> string option \<Rightarrow> hook \<Rightarrow> hook" where
  "handleStorage_002 cfg key st =
     (if key = Some (storageKey_compact cfg) then st\<lparr>timers := timers st @ [100]\<rparr> else st)"

text \<open>
  The storage part of the destructor that the effect of \<^verbatim>\<open>part_003\<close> returns; React
  calls it when the component unmounts. Nothing catches a throw of \<^verbatim>\<open>removeItem\<close> here.
\<close>

definition effect_cleanup_003 :: "config \<Rightarrow> host \<Rightarrow> hook \<Rightarrow> error + hook" where
  "effect_cleanup_003 cfg h st =
     (if isLeader st then
        (case removeItem h (storage st) (storageKey_compact cfg) of
           Inl e \<Rightarrow> Inl e
         | Inr ls \<Rightarrow> Inr (st\<lparr>storage := ls\<rparr>))
      else Inr st)"


section \<open>Concrete hosts and stores\<close>

text \<open>A host at time \<open>t\<close> whose \<^verbatim>\<open>localStorage\<close> works, and one whose every method throws.\<close>

definition working :: "int \<Rightarrow> host" where
  "working t = \<lparr>now = t, getItemThrows = False, setItemThrows = False, removeItemThrows = False\<rparr>"


text \<open>
  A hook with the default configuration and the identity \<open>tid\<close>, just mounted on a host
  with BroadcastChannel, where the store holds \<open>v\<close> under the key and nothing else.
\<close>

definition tab_with :: "string \<Rightarrow> stored option \<Rightarrow> hook" where
  "tab_with tid v = mount DEFAULT_CONFIG tid True (Map.empty(storageKey DEFAULT_CONFIG := v))"

text \<open>The default configuration with the timeout of 5000 ms of the specification's scenario.\<close>

definition scenario_config :: config where
  "scenario_config = DEFAULT_CONFIG\<lparr>timeout := 5000\<rparr>"


text \<open>
  A run of tab \<open>B\<close> in that scenario: interval ticks at 3000, 6000 and 7000, then tab \<open>A\<close>
  writes its record again at 8000 and the storage event reaches \<open>B\<close>.
\<close>

definition scenario_events :: "(host \<times> event) list" where
  "scenario_events =
     [(working 3000, IntervalTick), (working 6000, IntervalTick), (working 7000, IntervalTick),
      (working 8000, OtherTab (Some (stringify \<lparr>id_rec = ''A'', timestamp_rec = 8000\<rparr>))),
      (working 8000, StorageEvent (Some (storageKey scenario_config)))]"

text \<open>Tab \<open>A\<close> as a committed leader whose record of time 1000 is in the store.\<close>

definition leaderA :: hook where
  "leaderA =
     (tab_with ''A'' (Some (stringify \<lparr>id_rec = ''A'', timestamp_rec = 1000\<rparr>)))
       \<lparr>isLeader := True, isChecking := False, previousLeaderState := True\<rparr>"

text \<open>Tab \<open>B\<close> as a settled follower of the record \<^verbatim>\<open>{A, 0}\<close>.\<close>

definition followerB :: hook where
  "followerB =
     (tab_with ''B'' (Some (stringify \<lparr>id_rec = ''A'', timestamp_rec = 0\<rparr>)))
       \<lparr>tabCount := 2, isChecking := False\<rparr>"


section \<open>Outcomes of a reconciliation\<close>

text \<open>
  \<open>claimed cfg h st st'\<close>: from \<open>st\<close>, the call at host \<open>h\<close> wrote the caller's record
  \<^verbatim>\<open>{id: tabId, timestamp: now}\<close> through \<^verbatim>\<open>setTabRecord\<close> (the text is under the key unless
  \<^verbatim>\<open>setItem\<close> threw, and then the store is as it was) and ended as leader.
  \<open>stayed_follower st st'\<close>: the call wrote nothing, ended as follower and reported the
  other tab once.
\<close>

definition claimed :: "config \<Rightarrow> host \<Rightarrow> hook \<Rightarrow> hook \<Rightarrow> bool" where
  "claimed cfg h st st' =
     (isLeader st' \<and> tabCount st' = 1 \<and> calls st' = calls st \<and>
      storage st' =
        (if setItemThrows h then storage st
         else (storage st)(storageKey cfg \<mapsto>
                 stringify \<lparr>id_rec = tabId st, timestamp_rec = now h\<rparr>)))"

definition stayed_follower :: "hook \<Rightarrow> hook \<Rightarrow> bool" where
  "stayed_follower st st' =
     (\<not> isLeader st' \<and> tabCount st' = 2 \<and> calls st' = calls st @ [OnTabDetected] \<and>
      storage st' = storage st)"


section \<open>Frame facts of the store operations\<close>


lemma getCurrentRecord_frame:
  "\<exists>es. snd (getCurrentRecord cfg h st) = st\<lparr>caught := caught st @ es\<rparr>"
  unfolding getCurrentRecord_def getItem_def
  by (auto split: if_splits option.splits sum.splits intro: exI[of _ "[]"])

lemma getCurrentRecord_fields [simp]:
  "tabId (snd (getCurrentRecord cfg h st)) = tabId st"
  "isLeader (snd (getCurrentRecord cfg h st)) = isLeader st"
  "tabCount (snd (getCurrentRecord cfg h st)) = tabCount st"
  "isChecking (snd (getCurrentRecord cfg h st)) = isChecking st"
  "previousLeaderState (snd (getCurrentRecord cfg h st)) = previousLeaderState st"
  "broadcastChannelRef (snd (getCurrentRecord cfg h st)) = broadcastChannelRef st"
  "storage (snd (getCurrentRecord cfg h st)) = storage st"
  "calls (snd (getCurrentRecord cfg h st)) = calls st"
  "posted (snd (getCurrentRecord cfg h st)) = posted st"
  "timers (snd (getCurrentRecord cfg h st)) = timers st"
  using getCurrentRecord_frame [of cfg h st] by auto

lemma setTabRecord_fields [simp]:
  "tabId (setTabRecord cfg h r st) = tabId st"
  "isLeader (setTabRecord cfg h r st) = isLeader st"
  "tabCount (setTabRecord cfg h r st) = tabCount st"
  "isChecking (setTabRecord cfg h r st) = isChecking st"
  "previousLeaderState (setTabRecord cfg h r st) = previousLeaderState st"
  "broadcastChannelRef (setTabRecord cfg h r st) = broadcastChannelRef st"
  "calls (setTabRecord cfg h r st) = calls st"
  "posted (setTabRecord cfg h r st) = posted st"
  "timers (setTabRecord cfg h r st) = timers st"
  by (simp_all add: setTabRecord_def setItem_def)

lemma setTabRecord_storage:
  "storage (setTabRecord cfg h r st) =
     (if setItemThrows h then storage st else (storage st)(storageKey cfg \<mapsto> stringify r))"
  by (simp add: setTabRecord_def setItem_def)

lemma setTabRecord_caught:
  "caught (setTabRecord cfg h r st) =
     (if setItemThrows h then caught st @ [StorageError] else caught st)"
  by (simp add: setTabRecord_def setItem_def)

lemma removeTabRecord_fields [simp]:
  "tabId (removeTabRecord cfg h st) = tabId st"
  "isLeader (removeTabRecord cfg h st) = isLeader st"
  "tabCount (removeTabRecord cfg h st) = tabCount st"
  "isChecking (removeTabRecord cfg h st) = isChecking st"
  "previousLeaderState (removeTabRecord cfg h st) = previousLeaderState st"
  "broadcastChannelRef (removeTabRecord cfg h st) = broadcastChannelRef st"
  "calls (removeTabRecord cfg h st) = calls st"
  "posted (removeTabRecord cfg h st) = posted st"
  "timers (removeTabRecord cfg h st) = timers st"
  by (simp_all add: removeTabRecord_def removeItem_def)

lemma removeTabRecord_storage:
  "storage (removeTabRecord cfg h st) =
     (if removeItemThrows h then storage st else (storage st)(storageKey cfg := None))"
  by (simp add: removeTabRecord_def removeItem_def)

text \<open>The record that a call reads: what \<^verbatim>\<open>getCurrentRecord()\<close> returns.\<close>

lemma currentRecord_cases:
  "fst (getCurrentRecord cfg h st) =
     (if getItemThrows h then JNull
      else case storage st (storageKey cfg) of
             None \<Rightarrow> JNull | Some EmptyString \<Rightarrow> JNull | Some Malformed \<Rightarrow> JNull
           | Some (Json v) \<Rightarrow> v)"
  by (simp add: getCurrentRecord_def getItem_def split: option.splits stored.splits)


section \<open>Forcing leadership\<close>

text \<open>
  Claim C6. Whatever the store holds and whatever the hook believed before,
  \<^verbatim>\<open>forceLeadership\<close> ends with \<^verbatim>\<open>isLeader = true\<close> and a tab count of 1, and it puts the
  record \<^verbatim>\<open>{id: tabId, timestamp: now}\<close> under the key whenever \<^verbatim>\<open>setItem\<close> does not throw.
  It consults nothing: replacing the stored text by any other (or by none) and the
  previous \<^verbatim>\<open>isLeader\<close> by any other leaves the resulting store the same, and it never
  reads, so a failing \<^verbatim>\<open>getItem\<close> changes nothing.
\<close>

theorem forceLeadership_unconditional:
  "isLeader (forceLeadership cfg h st) \<and>
   tabCount (forceLeadership cfg h st) = 1 \<and>
   (\<not> setItemThrows h \<longrightarrow>
      storage (forceLeadership cfg h st) (storageKey cfg) =
        Some (stringify \<lparr>id_rec = tabId st, timestamp_rec = now h\<rparr>)) \<and>
   (\<not> setItemThrows h \<longrightarrow>
      storage (forceLeadership cfg h (st\<lparr>storage := (storage st)(storageKey cfg := v), isLeader := b\<rparr>)) =
        storage (forceLeadership cfg h st)) \<and>
   forceLeadership cfg (h\<lparr>getItemThrows := g\<rparr>) st = forceLeadership cfg h st"
  by (simp add: forceLeadership_def setTabRecord_def setItem_def)

theorem forceLeadership_unconditional_witness:
  "\<not> setItemThrows (working 6000) \<and>
   isLeader (forceLeadership DEFAULT_CONFIG (working 6000)
      (tab_with ''tab-A'' (Some (stringify \<lparr>id_rec = ''tab-B'', timestamp_rec = 5000\<rparr>)))) \<and>
   storage (forceLeadership DEFAULT_CONFIG (working 6000)
      (tab_with ''tab-A'' (Some (stringify \<lparr>id_rec = ''tab-B'', timestamp_rec = 5000\<rparr>))))
     (storageKey DEFAULT_CONFIG) = Some (stringify \<lparr>id_rec = ''tab-A'', timestamp_rec = 6000\<rparr>)"
  using forceLeadership_unconditional
    [of DEFAULT_CONFIG "working 6000"
        "tab_with ''tab-A'' (Some (stringify \<lparr>id_rec = ''tab-B'', timestamp_rec = 5000\<rparr>))"]
  by (simp add: working_def tab_with_def mount_def)

section \<open>The decision rule of \<^verbatim>\<open>checkLeadership\<close>\<close>

lemma currentRecord_isChecking [simp]:
  "fst (getCurrentRecord cfg h (st\<lparr>isChecking := b\<rparr>)) = fst (getCurrentRecord cfg h st)"
  by (simp add: currentRecord_cases)

text \<open>The outcomes of a call, by the record it reads.\<close>

lemma checkLeadership_claimed:
  assumes "\<not> truthy (fst (getCurrentRecord cfg h st)) \<or>
     expired (now h) (fst (getCurrentRecord cfg h st)) (timeout cfg) \<or>
     id_is (fst (getCurrentRecord cfg h st)) (tabId st)"
  shows "claimed cfg h st (checkLeadership cfg h st)"
  using assms
  by (auto simp: claimed_def checkLeadership_def Let_def split_beta setTabRecord_storage)

lemma checkLeadership_stayed_follower:
  assumes "truthy (fst (getCurrentRecord cfg h st))"
    and "\<not> expired (now h) (fst (getCurrentRecord cfg h st)) (timeout cfg)"
    and "\<not> id_is (fst (getCurrentRecord cfg h st)) (tabId st)"
  shows "stayed_follower st (checkLeadership cfg h st)"
  using assms
  by (auto simp: stayed_follower_def checkLeadership_def Let_def split_beta)

lemma checkLeadership_fields [simp]:
  "tabId (checkLeadership cfg h st) = tabId st"
  "isChecking (checkLeadership cfg h st) = False"
  "previousLeaderState (checkLeadership cfg h st) = previousLeaderState st"
  "broadcastChannelRef (checkLeadership cfg h st) = broadcastChannelRef st"
  "posted (checkLeadership cfg h st) = posted st"
  "timers (checkLeadership cfg h st) = timers st"
  by (auto simp: checkLeadership_def Let_def split_beta)

lemma wellformed_truthy: "id_of r = Some i \<Longrightarrow> truthy r"
  by (cases r) auto

lemma wellformed_expired:
  "timestamp_of r = Some (JNum t) \<Longrightarrow> expired n r tmo = (n - t > tmo)"
  by (simp add: expired_def)

text \<open>
  Claim C1, as the code has it. The record a call works with is \<^verbatim>\<open>null\<close> when
  \<^verbatim>\<open>getItem\<close> throws, when nothing or the empty string is stored, when the stored text
  does not parse, and when it is the JSON text \<^verbatim>\<open>null\<close>: then the call claims. For a
  stored object whose \<^verbatim>\<open>id\<close> is a string \<open>i\<close> and whose \<^verbatim>\<open>timestamp\<close> is a number \<open>t\<close>,
  with the timeout below \<^verbatim>\<open>2^53\<close> or the age \<^verbatim>\<open>now - t\<close> at most \<^verbatim>\<open>2^53\<close> in absolute
  value (where the subtraction and comparison of the code, in doubles, are those of the
  integers), the call claims if \<^verbatim>\<open>now - t > timeout\<close>, else renews if \<open>i\<close> is the
  caller's own id, else stays follower. Claiming and renewing are the same write of
  \<^verbatim>\<open>{id: tabId, timestamp: now}\<close> followed by \<^verbatim>\<open>isLeader = true\<close>; the follower branch
  sets \<^verbatim>\<open>isLeader = false\<close> and leaves the store alone. (No shape is checked on a text
  that parses.)
\<close>

theorem checkLeadership_decision_rule:
  "(getItemThrows h \<or> storage st (storageKey cfg) = None \<or>
    storage st (storageKey cfg) = Some EmptyString \<or>
    storage st (storageKey cfg) = Some Malformed \<or>
    storage st (storageKey cfg) = Some (Json JNull)
      \<longrightarrow> claimed cfg h st (checkLeadership cfg h st)) \<and>
   (\<forall>r i t. \<not> getItemThrows h \<and> storage st (storageKey cfg) = Some (Json r) \<and>
        id_of r = Some (JStr i) \<and> timestamp_of r = Some (JNum t) \<and>
        (\<bar>timeout cfg\<bar> < 2 ^ 53 \<or> \<bar>now h - t\<bar> \<le> 2 ^ 53) \<longrightarrow>
      (if now h - t > timeout cfg then claimed cfg h st (checkLeadership cfg h st)
       else if i = tabId st then claimed cfg h st (checkLeadership cfg h st)
       else stayed_follower st (checkLeadership cfg h st)))"
proof -
  let ?rec = "fst (getCurrentRecord cfg h st)"
  have null: "claimed cfg h st (checkLeadership cfg h st)"
    if "getItemThrows h \<or> storage st (storageKey cfg) = None \<or>
        storage st (storageKey cfg) = Some EmptyString \<or>
        storage st (storageKey cfg) = Some Malformed \<or>
        storage st (storageKey cfg) = Some (Json JNull)"
  proof -
    have "\<not> truthy ?rec"
      using that by (auto simp: currentRecord_cases)
    then show ?thesis
      by (simp add: checkLeadership_claimed)
  qed
  have rule: "if now h - t > timeout cfg then claimed cfg h st (checkLeadership cfg h st)
       else if i = tabId st then claimed cfg h st (checkLeadership cfg h st)
       else stayed_follower st (checkLeadership cfg h st)"
    if a: "\<not> getItemThrows h \<and> storage st (storageKey cfg) = Some (Json r) \<and>
        id_of r = Some (JStr i) \<and> timestamp_of r = Some (JNum t)" for r i t
  proof -
    have r: "?rec = r" using a by (simp add: currentRecord_cases)
    have tr: "truthy r" using a wellformed_truthy by blast
    have ex: "expired (now h) r (timeout cfg) = (now h - t > timeout cfg)"
      using a by (simp add: wellformed_expired)
    have idis: "id_is r (tabId st) = (i = tabId st)"
      using a by (auto simp: id_is_def)
    show ?thesis
      using checkLeadership_claimed [of cfg h st] checkLeadership_stayed_follower [of cfg h st]
      by (simp add: r tr ex idis)
  qed
  show ?thesis
    using null rule by blast
qed

text \<open>
  The scenario of the specification: with a timeout of 5000 and the record \<^verbatim>\<open>{A, 0}\<close> in
  the store, tab \<open>B\<close> stays follower at time 3000 and claims at time 6000; on an empty
  store it claims. Tab \<open>A\<close>, whose record of time 1000 is in the store, renews at 3000.
\<close>

theorem checkLeadership_decision_rule_witness:
  "stayed_follower (tab_with ''B'' (Some (stringify \<lparr>id_rec = ''A'', timestamp_rec = 0\<rparr>)))
     (checkLeadership scenario_config (working 3000)
        (tab_with ''B'' (Some (stringify \<lparr>id_rec = ''A'', timestamp_rec = 0\<rparr>)))) \<and>
   claimed scenario_config (working 6000)
     (tab_with ''B'' (Some (stringify \<lparr>id_rec = ''A'', timestamp_rec = 0\<rparr>)))
     (checkLeadership scenario_config (working 6000)
        (tab_with ''B'' (Some (stringify \<lparr>id_rec = ''A'', timestamp_rec = 0\<rparr>)))) \<and>
   claimed scenario_config (working 6000) (tab_with ''B'' None)
     (checkLeadership scenario_config (working 6000) (tab_with ''B'' None)) \<and>
   claimed scenario_config (working 3000) leaderA
     (checkLeadership scenario_config (working 3000) leaderA)"
  using
    checkLeadership_decision_rule [of "working 3000" leaderA scenario_config]
    checkLeadership_decision_rule
      [of "working 3000" "tab_with ''B'' (Some (stringify \<lparr>id_rec = ''A'', timestamp_rec = 0\<rparr>))"
          scenario_config]
    checkLeadership_decision_rule
      [of "working 6000" "tab_with ''B'' (Some (stringify \<lparr>id_rec = ''A'', timestamp_rec = 0\<rparr>))"
          scenario_config]
    checkLeadership_decision_rule [of "working 6000" "tab_with ''B'' None" scenario_config]
  by (simp add: working_def leaderA_def tab_with_def mount_def scenario_config_def
      DEFAULT_CONFIG_def storageKey_def stringify_def)

text \<open>
  The claim as written has a malformed record claimed like an absent one. A stored
  \<^verbatim>\<open>{"id":"tab-B"}\<close> has no timestamp: \<^verbatim>\<open>now - undefined\<close> is \<^verbatim>\<open>NaN\<close>, no comparison with
  \<^verbatim>\<open>NaN\<close> holds, the id is not the caller's, and the caller stays follower, at any time.
\<close>

theorem malformed_record_counterexample:
  "\<not> isLeader (checkLeadership DEFAULT_CONFIG (working 1000000)
        (tab_with ''tab-A'' (Some (Json (JObj [(''id'', JStr ''tab-B'')]))))) \<and>
   storage (checkLeadership DEFAULT_CONFIG (working 1000000)
        (tab_with ''tab-A'' (Some (Json (JObj [(''id'', JStr ''tab-B'')])))))
     (storageKey DEFAULT_CONFIG) = Some (Json (JObj [(''id'', JStr ''tab-B'')]))"
  by (simp add: checkLeadership_def getCurrentRecord_def getItem_def working_def tab_with_def
      mount_def DEFAULT_CONFIG_def storageKey_def expired_def id_is_def Let_def)

section \<open>Unparsable text in the store\<close>

text \<open>
  Claim C2, as the code has it. A stored text that is empty, that \<^verbatim>\<open>JSON.parse\<close> rejects,
  or that parses to a falsy value is treated as an absent record: the call claims, and
  when \<^verbatim>\<open>setItem\<close> does not throw it ends in the very state it would have reached had
  the key been absent (up to the list of exceptions caught on the way: the
  \<^verbatim>\<open>SyntaxError\<close> is caught inside \<^verbatim>\<open>getCurrentRecord\<close> and goes no further). Nothing
  is promised for a text that parses to a truthy value of another shape.
\<close>

theorem unparsable_text_treated_as_absent:
  assumes "storage st (storageKey cfg) = Some s"
    and "s = EmptyString \<or> s = Malformed \<or> (\<exists>v. s = Json v \<and> \<not> truthy v)"
  shows "claimed cfg h st (checkLeadership cfg h st) \<and>
         (\<not> setItemThrows h \<longrightarrow>
            (checkLeadership cfg h st)\<lparr>caught := []\<rparr> =
            (checkLeadership cfg h (st\<lparr>storage := (storage st)(storageKey cfg := None)\<rparr>))\<lparr>caught := []\<rparr>)"
proof -
  have "\<not> truthy (fst (getCurrentRecord cfg h st))"
    using assms by (auto simp: currentRecord_cases)
  then have c: "claimed cfg h st (checkLeadership cfg h st)"
    by (simp add: checkLeadership_claimed)
  have "(checkLeadership cfg h st)\<lparr>caught := []\<rparr> =
        (checkLeadership cfg h (st\<lparr>storage := (storage st)(storageKey cfg := None)\<rparr>))\<lparr>caught := []\<rparr>"
    if "\<not> setItemThrows h"
    using that assms
    by (auto simp: checkLeadership_def getCurrentRecord_def getItem_def setTabRecord_def
        setItem_def Let_def)
  with c show ?thesis by blast
qed

theorem unparsable_text_treated_as_absent_witness:
  "claimed DEFAULT_CONFIG (working 1000) (tab_with ''tab-A'' (Some Malformed))
     (checkLeadership DEFAULT_CONFIG (working 1000) (tab_with ''tab-A'' (Some Malformed))) \<and>
   (checkLeadership DEFAULT_CONFIG (working 1000) (tab_with ''tab-A'' (Some Malformed)))
      \<lparr>caught := []\<rparr> =
   (checkLeadership DEFAULT_CONFIG (working 1000) (tab_with ''tab-A'' None))\<lparr>caught := []\<rparr>"
  using unparsable_text_treated_as_absent
    [of "tab_with ''tab-A'' (Some Malformed)" DEFAULT_CONFIG Malformed "working 1000"]
  by (simp add: tab_with_def mount_def working_def)

text \<open>
  The claim as written covers every stored value that is not a well-formed record. The
  text \<^verbatim>\<open>{}\<close> parses, is truthy, has neither member, and the caller stays follower
  with the store untouched, where on an absent record it claims.
\<close>

theorem wrong_shape_counterexample:
  "\<not> isLeader (checkLeadership DEFAULT_CONFIG (working 1000)
        (tab_with ''tab-A'' (Some (Json (JObj []))))) \<and>
   storage (checkLeadership DEFAULT_CONFIG (working 1000)
        (tab_with ''tab-A'' (Some (Json (JObj [])))))
     (storageKey DEFAULT_CONFIG) = Some (Json (JObj [])) \<and>
   isLeader (checkLeadership DEFAULT_CONFIG (working 1000) (tab_with ''tab-A'' None)) \<and>
   storage (checkLeadership DEFAULT_CONFIG (working 1000) (tab_with ''tab-A'' None))
     (storageKey DEFAULT_CONFIG) = Some (stringify \<lparr>id_rec = ''tab-A'', timestamp_rec = 1000\<rparr>)"
  by (simp add: checkLeadership_def getCurrentRecord_def getItem_def setTabRecord_def setItem_def
      working_def tab_with_def mount_def DEFAULT_CONFIG_def storageKey_def expired_def id_is_def
      Let_def)


section \<open>Failures of the store\<close>






section \<open>Becoming hidden\<close>

text \<open>
  Claim C9. When the page becomes hidden and the hook is leader, the listener rewrites
  the record with the hook's own id and the current time (the text is under the key
  unless \<^verbatim>\<open>setItem\<close> throws, and then the store is as it was), removes nothing, and
  leaves \<^verbatim>\<open>isLeader\<close> true. When the hook is not leader the listener changes nothing.
\<close>

theorem hidden_leader_renews:
  "(isLeader st \<longrightarrow>
      isLeader (handleVisibilityChange cfg h True st) \<and>
      storage (handleVisibilityChange cfg h True st) =
        (if setItemThrows h then storage st
         else (storage st)(storageKey cfg \<mapsto>
                 stringify \<lparr>id_rec = tabId st, timestamp_rec = now h\<rparr>)) \<and>
      (storage st (storageKey cfg) \<noteq> None \<longrightarrow>
         storage (handleVisibilityChange cfg h True st) (storageKey cfg) \<noteq> None)) \<and>
   (\<not> isLeader st \<longrightarrow> handleVisibilityChange cfg h True st = st)"
  by (simp add: handleVisibilityChange_def setTabRecord_storage)

theorem hidden_leader_renews_witness:
  "isLeader (forceLeadership DEFAULT_CONFIG (working 1000) (tab_with ''tab-A'' None)) \<and>
   isLeader (handleVisibilityChange DEFAULT_CONFIG (working 4000) True
      (forceLeadership DEFAULT_CONFIG (working 1000) (tab_with ''tab-A'' None))) \<and>
   storage (handleVisibilityChange DEFAULT_CONFIG (working 4000) True
      (forceLeadership DEFAULT_CONFIG (working 1000) (tab_with ''tab-A'' None)))
     (storageKey DEFAULT_CONFIG) = Some (stringify \<lparr>id_rec = ''tab-A'', timestamp_rec = 4000\<rparr>) \<and>
   \<not> isLeader (tab_with ''tab-B'' (Some (stringify \<lparr>id_rec = ''tab-A'', timestamp_rec = 1000\<rparr>))) \<and>
   handleVisibilityChange DEFAULT_CONFIG (working 4000) True
      (tab_with ''tab-B'' (Some (stringify \<lparr>id_rec = ''tab-A'', timestamp_rec = 1000\<rparr>))) =
   tab_with ''tab-B'' (Some (stringify \<lparr>id_rec = ''tab-A'', timestamp_rec = 1000\<rparr>))"
  using
    hidden_leader_renews
      [of "forceLeadership DEFAULT_CONFIG (working 1000) (tab_with ''tab-A'' None)"
          DEFAULT_CONFIG "working 4000"]
    hidden_leader_renews
      [of "tab_with ''tab-B'' (Some (stringify \<lparr>id_rec = ''tab-A'', timestamp_rec = 1000\<rparr>))"
          DEFAULT_CONFIG "working 4000"]
  by (simp add: forceLeadership_def working_def tab_with_def mount_def)


section \<open>Cleanup on shutdown\<close>

lemma cleanup_fields [simp]:
  "tabId (cleanup cfg h st) = tabId st"
  "isLeader (cleanup cfg h st) = isLeader st"
  "tabCount (cleanup cfg h st) = tabCount st"
  "isChecking (cleanup cfg h st) = isChecking st"
  "previousLeaderState (cleanup cfg h st) = previousLeaderState st"
  "broadcastChannelRef (cleanup cfg h st) = broadcastChannelRef st"
  "calls (cleanup cfg h st) = calls st"
  "timers (cleanup cfg h st) = timers st"
  by (simp_all add: cleanup_def Let_def split_beta)

lemma cleanup_storage:
  "storage (cleanup cfg h st) =
     (if truthy (fst (getCurrentRecord cfg h st)) \<and> id_is (fst (getCurrentRecord cfg h st)) (tabId st)
         \<and> \<not> removeItemThrows h
      then (storage st)(storageKey cfg := None) else storage st)"
  by (simp add: cleanup_def Let_def split_beta removeTabRecord_storage)

text \<open>The cleanup of the full hook removes the record of its own tab and no other.\<close>

lemma cleanup_removes_own_record_only:
  assumes "\<not> getItemThrows h" and "\<not> removeItemThrows h"
  shows "storage (cleanup cfg h st) =
     (if \<exists>r. storage st (storageKey cfg) = Some (Json r) \<and> id_of r = Some (JStr (tabId st))
      then (storage st)(storageKey cfg := None) else storage st)"
proof (cases "storage st (storageKey cfg)")
  case None
  with assms show ?thesis by (simp add: cleanup_storage currentRecord_cases)
next
  case (Some s)
  show ?thesis
  proof (cases s)
    case (Json r)
    have "id_is r (tabId st) \<Longrightarrow> truthy r"
      by (auto simp: id_is_def intro: wellformed_truthy)
    with Some Json assms show ?thesis
      by (auto simp: cleanup_storage currentRecord_cases id_is_def)
  qed (use Some assms in \<open>simp_all add: cleanup_storage currentRecord_cases\<close>)
qed

text \<open>
  Claim C3 has the shutdown remove the record exactly when the record names this tab.
  The full hook does (the lemma above); the destructor of the compact hook of
  \<^verbatim>\<open>part_003\<close> looks at \<^verbatim>\<open>isLeader\<close> instead of the record. Tab \<open>A\<close> is leader, tab \<open>B\<close>
  forces leadership at time 6950, and \<open>A\<close> unmounts at time 7000, before its next
  check: the destructor of \<^verbatim>\<open>part_003\<close> removes the record of \<open>B\<close>, where the cleanup of
  the full hook leaves it.
\<close>

theorem stale_leader_unmount_removes_foreign_record:
  "effect_cleanup_003 DEFAULT_CONFIG (working 7000)
     ((tab_with ''tab-A'' (Some (stringify \<lparr>id_rec = ''tab-B'', timestamp_rec = 6950\<rparr>)))
        \<lparr>isLeader := True\<rparr>) =
   Inr ((tab_with ''tab-A'' None)\<lparr>isLeader := True\<rparr>) \<and>
   storage (cleanup DEFAULT_CONFIG (working 7000)
     ((tab_with ''tab-A'' (Some (stringify \<lparr>id_rec = ''tab-B'', timestamp_rec = 6950\<rparr>)))
        \<lparr>isLeader := True\<rparr>)) (storageKey DEFAULT_CONFIG) =
   Some (stringify \<lparr>id_rec = ''tab-B'', timestamp_rec = 6950\<rparr>)"
  by (simp add: effect_cleanup_003_def removeItem_def working_def tab_with_def mount_def
      storageKey_compact_def storageKey_def DEFAULT_CONFIG_def cleanup_storage currentRecord_cases
      stringify_def id_is_def)


section \<open>Reacting to a storage event\<close>

text \<open>
  Claim C7 has the storage listener schedule the reconciliation some 100 ms later. In
  the full hook \<^verbatim>\<open>handleStorageChange\<close> calls \<^verbatim>\<open>checkLeadership()\<close> itself: on an event
  for the key, with an empty store, the tab has claimed when the listener returns and
  no timer is pending. The BroadcastChannel listener of the same hook and the storage
  listener of the compact hooks schedule \<^verbatim>\<open>setTimeout(checkLeadership, 100)\<close> and change
  nothing else.
\<close>

theorem storage_event_reconciles_at_once:
  "handleStorageChange DEFAULT_CONFIG (working 6000) (Some (storageKey DEFAULT_CONFIG))
     (tab_with ''tab-A'' None) =
   checkLeadership DEFAULT_CONFIG (working 6000) (tab_with ''tab-A'' None) \<and>
   timers (handleStorageChange DEFAULT_CONFIG (working 6000) (Some (storageKey DEFAULT_CONFIG))
     (tab_with ''tab-A'' None)) = [] \<and>
   isLeader (handleStorageChange DEFAULT_CONFIG (working 6000) (Some (storageKey DEFAULT_CONFIG))
     (tab_with ''tab-A'' None)) \<and>
   storage (handleStorageChange DEFAULT_CONFIG (working 6000) (Some (storageKey DEFAULT_CONFIG))
     (tab_with ''tab-A'' None)) (storageKey DEFAULT_CONFIG) =
     Some (stringify \<lparr>id_rec = ''tab-A'', timestamp_rec = 6000\<rparr>) \<and>
   handleMessage ''leadership-change'' (tab_with ''tab-A'' None) =
     (tab_with ''tab-A'' None)\<lparr>timers := [100]\<rparr> \<and>
   handleStorage_002 DEFAULT_CONFIG (Some (storageKey_compact DEFAULT_CONFIG)) (tab_with ''tab-A'' None) =
     (tab_with ''tab-A'' None)\<lparr>timers := [100]\<rparr>"
  by (simp add: handleStorageChange_def handleMessage_def handleStorage_002_def
      checkLeadership_def getCurrentRecord_def getItem_def setTabRecord_def setItem_def Let_def
      working_def tab_with_def mount_def)

text \<open>The record read at that event is \<^verbatim>\<open>null\<close>, which is what makes the listener claim.\<close>

theorem storage_event_reconciles_at_once_witness:
  "\<not> truthy (fst (getCurrentRecord DEFAULT_CONFIG (working 6000) (tab_with ''tab-A'' None))) \<and>
   isLeader (handleStorageChange DEFAULT_CONFIG (working 6000) (Some (storageKey DEFAULT_CONFIG))
     (tab_with ''tab-A'' None)) \<and>
   timers (handleStorageChange DEFAULT_CONFIG (working 6000) (Some (storageKey DEFAULT_CONFIG))
     (tab_with ''tab-A'' None)) \<noteq> [100]"
proof -
  have "\<not> truthy (fst (getCurrentRecord DEFAULT_CONFIG (working 6000) (tab_with ''tab-A'' None)))"
    by (simp add: currentRecord_cases working_def tab_with_def mount_def)
  moreover have "timers (handleStorageChange DEFAULT_CONFIG (working 6000)
      (Some (storageKey DEFAULT_CONFIG)) (tab_with ''tab-A'' None)) = []"
    and "isLeader (handleStorageChange DEFAULT_CONFIG (working 6000)
      (Some (storageKey DEFAULT_CONFIG)) (tab_with ''tab-A'' None))"
    using storage_event_reconciles_at_once by blast+
  ultimately show ?thesis by simp
qed

section \<open>Callbacks on changes of leadership\<close>

lemma checkLeadership_calls:
  "calls (checkLeadership cfg h st) =
     calls st @ (if isLeader (checkLeadership cfg h st) then [] else [OnTabDetected])"
proof (cases "\<not> truthy (fst (getCurrentRecord cfg h st)) \<or>
     expired (now h) (fst (getCurrentRecord cfg h st)) (timeout cfg) \<or>
     id_is (fst (getCurrentRecord cfg h st)) (tabId st)")
  case True
  then show ?thesis
    using checkLeadership_claimed [of cfg h st] by (simp add: claimed_def)
next
  case False
  then show ?thesis
    using checkLeadership_stayed_follower [of cfg h st] by (simp add: stayed_follower_def)
qed

lemma forceLeadership_fields [simp]:
  "tabId (forceLeadership cfg h st) = tabId st"
  "isLeader (forceLeadership cfg h st)"
  "previousLeaderState (forceLeadership cfg h st) = previousLeaderState st"
  "calls (forceLeadership cfg h st) = calls st"
  by (simp_all add: forceLeadership_def)

lemma handleVisibilityChange_fields [simp]:
  "tabId (handleVisibilityChange cfg h b st) = tabId st"
  "isLeader (handleVisibilityChange cfg h b st) = isLeader st"
  "previousLeaderState (handleVisibilityChange cfg h b st) = previousLeaderState st"
  "calls (handleVisibilityChange cfg h b st) = calls st"
  by (simp_all add: handleVisibilityChange_def)

lemma dispatch_fields [simp]:
  "tabId (dispatch cfg h ev st) = tabId st"
  "previousLeaderState (dispatch cfg h ev st) = previousLeaderState st"
  by (cases ev; simp add: handleStorageChange_def handleMessage_def handleBeforeUnload_def
      split: list.splits)+

lemma dispatch_calls:
  "calls (dispatch cfg h ev st) = calls st \<and> (isLeader st \<longrightarrow> isLeader (dispatch cfg h ev st)) \<or>
   calls (dispatch cfg h ev st) = calls st @ [OnTabDetected] \<and> \<not> isLeader (dispatch cfg h ev st)"
  by (cases ev)
     (auto simp: handleStorageChange_def handleMessage_def handleBeforeUnload_def
        checkLeadership_calls split: list.splits)

lemma commit_fields [simp]:
  "tabId (commit cfg h st) = tabId st"
  "isLeader (commit cfg h st) = isLeader st"
  "previousLeaderState (commit cfg h st) = isLeader st"
  by (auto simp: commit_def leaderEffect_def)

lemma commit_calls:
  "calls (commit cfg h st) =
     calls st @ (if previousLeaderState st = isLeader st then []
                 else [if isLeader st then OnBecomeLeader else OnLoseLeadership])"
  by (simp add: commit_def leaderEffect_def)

lemma step_fields [simp]:
  "tabId (step cfg h ev st) = tabId st"
  "previousLeaderState (step cfg h ev st) = isLeader (step cfg h ev st)"
  by (simp_all add: step_def)

text \<open>What one event adds to the record of the callbacks.\<close>

lemma step_calls:
  assumes "previousLeaderState st = isLeader st"
  shows "count_list (calls (step cfg h ev st)) OnBecomeLeader =
           count_list (calls st) OnBecomeLeader +
           (if \<not> isLeader st \<and> isLeader (step cfg h ev st) then 1 else 0)"
    and "count_list (calls (step cfg h ev st)) OnLoseLeadership =
           count_list (calls st) OnLoseLeadership +
           (if isLeader st \<and> \<not> isLeader (step cfg h ev st) then 1 else 0)"
    and "isLeader st \<Longrightarrow> isLeader (step cfg h ev st) \<Longrightarrow> calls (step cfg h ev st) = calls st"
  using assms dispatch_calls [of cfg h ev st]
  by (auto simp: step_def commit_calls)

lemma last_run_step:
  "last (st # run cfg ((h, ev) # es) st) = last (step cfg h ev st # run cfg es (step cfg h ev st))"
  by simp

text \<open>
  Claim C4. Along any run of events that starts in a committed state (the reference
  \<^verbatim>\<open>previousLeaderState\<close> agrees with \<^verbatim>\<open>isLeader\<close>, as it does at mount), \<^verbatim>\<open>onBecomeLeader\<close>
  has been called once for each change of \<^verbatim>\<open>isLeader\<close> from false to true and
  \<^verbatim>\<open>onLoseLeadership\<close> once for each change from true to false, and no more; as this
  holds for every run it holds for every prefix, so each call comes with its change.
  When \<^verbatim>\<open>isLeader\<close> is true throughout, no callback at all is called.
\<close>

theorem leadership_callbacks_edge_triggered:
  assumes "previousLeaderState st = isLeader st"
  shows "count_list (calls (last (st # run cfg es st))) OnBecomeLeader =
           count_list (calls st) OnBecomeLeader + rising (isLeader st) (map isLeader (run cfg es st)) \<and>
         count_list (calls (last (st # run cfg es st))) OnLoseLeadership =
           count_list (calls st) OnLoseLeadership + falling (isLeader st) (map isLeader (run cfg es st)) \<and>
         (isLeader st \<and> (\<forall>s \<in> set (run cfg es st). isLeader s) \<longrightarrow>
            calls (last (st # run cfg es st)) = calls st)"
  using assms
proof (induction es arbitrary: st)
  case Nil
  then show ?case by simp
next
  case (Cons e es)
  obtain h ev where e: "e = (h, ev)" by (cases e)
  let ?s = "step cfg h ev st"
  have sync: "previousLeaderState ?s = isLeader ?s" by simp
  note IH = Cons.IH [OF sync]
  note one = step_calls [OF Cons.prems, of cfg h ev]
  have l: "last (st # run cfg (e # es) st) = last (?s # run cfg es ?s)"
    by (simp add: e)
  show ?case
    unfolding l
    using IH one by (auto simp: e)
qed


text \<open>
  Tab \<open>B\<close> in the scenario run: follower, leader from time 6000, follower again at 8000;
  one call of each callback. Tab \<open>A\<close> renewing twice as leader: no callback.
\<close>

theorem leadership_callbacks_edge_triggered_witness:
  "previousLeaderState (tab_with ''B'' (Some (stringify \<lparr>id_rec = ''A'', timestamp_rec = 0\<rparr>))) =
     isLeader (tab_with ''B'' (Some (stringify \<lparr>id_rec = ''A'', timestamp_rec = 0\<rparr>))) \<and>
   map isLeader (run scenario_config scenario_events
     (tab_with ''B'' (Some (stringify \<lparr>id_rec = ''A'', timestamp_rec = 0\<rparr>)))) =
     [False, True, True, True, False] \<and>
   count_list (calls (last (tab_with ''B'' (Some (stringify \<lparr>id_rec = ''A'', timestamp_rec = 0\<rparr>)) #
     run scenario_config scenario_events
       (tab_with ''B'' (Some (stringify \<lparr>id_rec = ''A'', timestamp_rec = 0\<rparr>)))))) OnBecomeLeader = 1 \<and>
   count_list (calls (last (tab_with ''B'' (Some (stringify \<lparr>id_rec = ''A'', timestamp_rec = 0\<rparr>)) #
     run scenario_config scenario_events
       (tab_with ''B'' (Some (stringify \<lparr>id_rec = ''A'', timestamp_rec = 0\<rparr>)))))) OnLoseLeadership = 1 \<and>
   previousLeaderState leaderA = isLeader leaderA \<and> isLeader leaderA \<and>
   list_all isLeader
     (run DEFAULT_CONFIG [(working 2000, IntervalTick), (working 3000, IntervalTick)] leaderA) \<and>
   calls (last (leaderA #
     run DEFAULT_CONFIG [(working 2000, IntervalTick), (working 3000, IntervalTick)] leaderA)) =
     calls leaderA"
proof -
  let ?B = "tab_with ''B'' (Some (stringify \<lparr>id_rec = ''A'', timestamp_rec = 0\<rparr>))"
  let ?es = "[(working 2000, IntervalTick), (working 3000, IntervalTick)]"
  have pB: "previousLeaderState ?B = isLeader ?B" and B: "\<not> isLeader ?B" "calls ?B = []"
    by (simp_all add: tab_with_def mount_def)
  have mB: "map isLeader (run scenario_config scenario_events ?B) = [False, True, True, True, False]"
    by code_simp
  have pA: "previousLeaderState leaderA = isLeader leaderA" and A: "isLeader leaderA"
    by (simp_all add: leaderA_def)
  have mA: "map isLeader (run DEFAULT_CONFIG ?es leaderA) = [True, True]"
    by code_simp
  have allA: "\<forall>s \<in> set (run DEFAULT_CONFIG ?es leaderA). isLeader s"
  proof
    fix s assume "s \<in> set (run DEFAULT_CONFIG ?es leaderA)"
    then have "isLeader s \<in> set (map isLeader (run DEFAULT_CONFIG ?es leaderA))"
      by (simp del: run.simps)
    then show "isLeader s" unfolding mA by simp
  qed
  show ?thesis
    using leadership_callbacks_edge_triggered [OF pB, of scenario_config scenario_events]
      leadership_callbacks_edge_triggered [OF pA, of DEFAULT_CONFIG ?es]
      pB pA A allA
    by (simp add: mB B list_all_iff del: run.simps)
qed


section \<open>The records a tab writes\<close>

lemma checkLeadership_storage:
  "storage (checkLeadership cfg h st) = storage st \<or>
   storage (checkLeadership cfg h st) =
     (storage st)(storageKey cfg \<mapsto> stringify \<lparr>id_rec = tabId st, timestamp_rec = now h\<rparr>)"
proof (cases "\<not> truthy (fst (getCurrentRecord cfg h st)) \<or>
     expired (now h) (fst (getCurrentRecord cfg h st)) (timeout cfg) \<or>
     id_is (fst (getCurrentRecord cfg h st)) (tabId st)")
  case True
  then show ?thesis
    using checkLeadership_claimed [of cfg h st] by (simp add: claimed_def)
next
  case False
  then show ?thesis
    using checkLeadership_stayed_follower [of cfg h st] by (simp add: stayed_follower_def)
qed

lemma dispatch_storage:
  assumes "\<forall>v. ev \<noteq> OtherTab v"
  shows "storage (dispatch cfg h ev st) = storage st \<or>
         storage (dispatch cfg h ev st) = (storage st)(storageKey cfg := None) \<or>
         storage (dispatch cfg h ev st) =
           (storage st)(storageKey cfg \<mapsto> stringify \<lparr>id_rec = tabId st, timestamp_rec = now h\<rparr>)"
proof (cases ev)
  case IntervalTick
  then show ?thesis using checkLeadership_storage [of cfg h st] by auto
next
  case (StorageEvent key)
  then show ?thesis
    using checkLeadership_storage [of cfg h st] by (auto simp: handleStorageChange_def)
next
  case (ChannelMessage ty)
  then show ?thesis by (simp add: handleMessage_def)
next
  case TimeoutFires
  show ?thesis
  proof (cases "timers st")
    case Nil
    with TimeoutFires show ?thesis by simp
  next
    case (Cons d ds)
    with TimeoutFires show ?thesis
      using checkLeadership_storage [of cfg h "st\<lparr>timers := ds\<rparr>"] by auto
  qed
next
  case ForceLeadership
  then show ?thesis by (simp add: forceLeadership_def setTabRecord_storage)
next
  case (VisibilityChange hidden)
  then show ?thesis by (simp add: handleVisibilityChange_def setTabRecord_storage)
next
  case BeforeUnload
  then show ?thesis by (simp add: handleBeforeUnload_def cleanup_storage)
next
  case (OtherTab v)
  with assms show ?thesis by simp
qed

lemma commit_storage:
  "storage (commit cfg h st) = storage st \<or>
   storage (commit cfg h st) = (storage st)(storageKey cfg := None)"
  by (simp add: commit_def leaderEffect_def cleanup_storage)

text \<open>
  Claim C10. Whatever the tab does in one event of its own (a reconciliation from the
  interval, from a storage event or from a timer, \<^verbatim>\<open>forceLeadership\<close>, the
  \<^verbatim>\<open>visibilitychange\<close> and \<^verbatim>\<open>beforeunload\<close> listeners, and the commit that follows), from
  any state: its \<^verbatim>\<open>tabId\<close> stays what it was, no key but the storage key changes, and
  the storage key, if it changes, is removed or holds the record
  \<^verbatim>\<open>{id: tabId, timestamp: now}\<close> with the tab's own id.
\<close>

theorem writes_carry_own_id:
  assumes "\<forall>v. ev \<noteq> OtherTab v"
  shows "tabId (step cfg h ev st) = tabId st \<and>
         (\<forall>k. storage (step cfg h ev st) k = storage st k \<or>
              k = storageKey cfg \<and>
              (storage (step cfg h ev st) k = None \<or>
               storage (step cfg h ev st) k =
                 Some (stringify \<lparr>id_rec = tabId st, timestamp_rec = now h\<rparr>)))"
proof -
  have id: "tabId (step cfg h ev st) = tabId st" by simp
  have "storage (step cfg h ev st) k = storage st k \<or>
        k = storageKey cfg \<and>
        (storage (step cfg h ev st) k = None \<or>
         storage (step cfg h ev st) k =
           Some (stringify \<lparr>id_rec = tabId st, timestamp_rec = now h\<rparr>))" for k
  proof (cases "k = storageKey cfg")
    case True
    then show ?thesis
      using dispatch_storage [OF assms, of cfg h st]
        commit_storage [of cfg h "dispatch cfg h ev st"]
      by (auto simp: step_def)
  next
    case False
    then show ?thesis
      using dispatch_storage [OF assms, of cfg h st]
        commit_storage [of cfg h "dispatch cfg h ev st"]
      by (auto simp: step_def)
  qed
  with id show ?thesis by blast
qed

text \<open>Tab \<open>A\<close>, leader, renews at time 4000: the key now holds its record of that time.\<close>

theorem writes_carry_own_id_witness:
  "(\<forall>v. IntervalTick \<noteq> OtherTab v) \<and>
   tabId (step DEFAULT_CONFIG (working 4000) IntervalTick leaderA) = tabId leaderA \<and>
   storage (step DEFAULT_CONFIG (working 4000) IntervalTick leaderA) (storageKey DEFAULT_CONFIG) =
     Some (stringify \<lparr>id_rec = ''A'', timestamp_rec = 4000\<rparr>) \<and>
   storage leaderA (storageKey DEFAULT_CONFIG) =
     Some (stringify \<lparr>id_rec = ''A'', timestamp_rec = 1000\<rparr>)"
proof -
  have e: "\<forall>v. IntervalTick \<noteq> OtherTab v" by simp
  have "storage (step DEFAULT_CONFIG (working 4000) IntervalTick leaderA) (storageKey DEFAULT_CONFIG)
          \<noteq> None"
    and "storage (step DEFAULT_CONFIG (working 4000) IntervalTick leaderA) (storageKey DEFAULT_CONFIG)
          \<noteq> storage leaderA (storageKey DEFAULT_CONFIG)"
    and "tabId leaderA = ''A''"
    and "now (working 4000) = 4000"
    and "storage leaderA (storageKey DEFAULT_CONFIG) =
           Some (stringify \<lparr>id_rec = ''A'', timestamp_rec = 1000\<rparr>)"
    by (simp_all add: leaderA_def step_def commit_def leaderEffect_def checkLeadership_def
        getCurrentRecord_def getItem_def setTabRecord_def setItem_def expired_def id_is_def
        stringify_def storageKey_def DEFAULT_CONFIG_def working_def tab_with_def mount_def Let_def)
  moreover have "tabId (step DEFAULT_CONFIG (working 4000) IntervalTick leaderA) = tabId leaderA"
    and "storage (step DEFAULT_CONFIG (working 4000) IntervalTick leaderA) (storageKey DEFAULT_CONFIG) =
           storage leaderA (storageKey DEFAULT_CONFIG) \<or>
         storage (step DEFAULT_CONFIG (working 4000) IntervalTick leaderA) (storageKey DEFAULT_CONFIG) =
           None \<or>
         storage (step DEFAULT_CONFIG (working 4000) IntervalTick leaderA) (storageKey DEFAULT_CONFIG) =
           Some (stringify \<lparr>id_rec = tabId leaderA, timestamp_rec = now (working 4000)\<rparr>)"
    using writes_carry_own_id [OF e, of DEFAULT_CONFIG "working 4000" leaderA] by blast+
  ultimately show ?thesis
    using e by auto
qed


section \<open>Repeated reconciliation\<close>

lemma follower_reconciles_to_itself:
  assumes "\<not> getItemThrows h"
    and "storage st (storageKey cfg) = Some (Json r)"
    and "id_of r = Some (JStr i)" and "i \<noteq> tabId st"
    and "timestamp_of r = Some (JNum t)" and "now h - t \<le> timeout cfg"
    and "\<not> isLeader st" and "tabCount st = 2" and "\<not> isChecking st"
  shows "checkLeadership cfg h st = st\<lparr>calls := calls st @ [OnTabDetected]\<rparr>"
proof -
  have r: "getCurrentRecord cfg h (st\<lparr>isChecking := True\<rparr>) = (r, st\<lparr>isChecking := True\<rparr>)"
    using assms(1,2) by (simp add: getCurrentRecord_def getItem_def)
  have "truthy r" using assms(3) by (rule wellformed_truthy)
  moreover have "\<not> expired (now h) r (timeout cfg)"
    using assms(5,6) by (simp add: wellformed_expired)
  moreover have "\<not> id_is r (tabId st)"
    using assms(3,4) by (simp add: id_is_def)
  ultimately show ?thesis
    using assms(7,8,9) by (simp add: checkLeadership_def r)
qed

lemma settled_follower:
  assumes "storage st (storageKey cfg) = Some (Json r)"
    and "id_of r = Some (JStr i)" and "i \<noteq> tabId st"
    and "timestamp_of r = Some (JNum t)"
    and "\<forall>h \<in> set hs. \<not> getItemThrows h \<and> now h - t \<le> timeout cfg"
    and "\<not> isLeader st" and "tabCount st = 2" and "\<not> isChecking st"
  shows "\<forall>s \<in> set (reconciliations cfg hs st). s\<lparr>calls := calls st\<rparr> = st"
  using assms
proof (induction hs arbitrary: st)
  case Nil
  then show ?case by simp
next
  case (Cons h hs)
  let ?s = "st\<lparr>calls := calls st @ [OnTabDetected]\<rparr>"
  have one: "checkLeadership cfg h st = ?s"
    using Cons.prems by (intro follower_reconciles_to_itself) auto
  have "\<forall>s \<in> set (reconciliations cfg hs ?s). s\<lparr>calls := calls ?s\<rparr> = ?s"
    using Cons.prems by (intro Cons.IH) auto
  then have "\<forall>s \<in> set (reconciliations cfg hs ?s). s\<lparr>calls := calls st\<rparr> = st"
  proof (intro ballI)
    fix s assume "\<forall>s \<in> set (reconciliations cfg hs ?s). s\<lparr>calls := calls ?s\<rparr> = ?s"
      and "s \<in> set (reconciliations cfg hs ?s)"
    then have "s\<lparr>calls := calls ?s\<rparr> = ?s" by blast
    then have "(s\<lparr>calls := calls ?s\<rparr>)\<lparr>calls := calls st\<rparr> = ?s\<lparr>calls := calls st\<rparr>" by simp
    then show "s\<lparr>calls := calls st\<rparr> = st" by simp
  qed
  then show ?case by (simp add: one)
qed

lemma owner_reconciles_to_leader:
  assumes "storage st (storageKey cfg) = Some (stringify \<lparr>id_rec = tabId st, timestamp_rec = t\<rparr>)"
  shows "claimed cfg h st (checkLeadership cfg h st)"
proof (rule checkLeadership_claimed)
  let ?rec = "fst (getCurrentRecord cfg h st)"
  have "?rec = JNull \<or> ?rec = JObj [(''id'', JStr (tabId st)), (''timestamp'', JNum t)]"
    using assms by (simp add: currentRecord_cases stringify_def)
  then show "\<not> truthy ?rec \<or> expired (now h) ?rec (timeout cfg) \<or> id_is ?rec (tabId st)"
    by (auto simp: id_is_def)
qed

lemma storedTimestamp_stringify:
  "storage st (storageKey cfg) = Some (stringify \<lparr>id_rec = i, timestamp_rec = t\<rparr>) \<Longrightarrow>
   storedTimestamp cfg st = Some t"
  by (simp add: storedTimestamp_def stringify_def)

lemma steady_leader:
  assumes "storage st (storageKey cfg) = Some (stringify \<lparr>id_rec = tabId st, timestamp_rec = t0\<rparr>)"
    and "sorted (t0 # map now hs)"
  shows "(\<forall>s \<in> set (reconciliations cfg hs st). isLeader s) \<and>
         (\<exists>ts. map (storedTimestamp cfg) (reconciliations cfg hs st) = map Some ts \<and> sorted (t0 # ts))"
  using assms
proof (induction hs arbitrary: st t0)
  case Nil
  then show ?case by simp
next
  case (Cons h hs)
  let ?s = "checkLeadership cfg h st"
  let ?t = "if setItemThrows h then t0 else now h"
  have c: "claimed cfg h st ?s"
    using Cons.prems(1) by (rule owner_reconciles_to_leader)
  then have st: "storage ?s (storageKey cfg) = Some (stringify \<lparr>id_rec = tabId ?s, timestamp_rec = ?t\<rparr>)"
    using Cons.prems(1) by (simp add: claimed_def)
  have le: "t0 \<le> ?t" using Cons.prems(2) by simp
  have so: "sorted (?t # map now hs)" using Cons.prems(2) by auto
  from Cons.IH [OF st so] obtain ts where
    l: "\<forall>s \<in> set (reconciliations cfg hs ?s). isLeader s" and
    ts: "map (storedTimestamp cfg) (reconciliations cfg hs ?s) = map Some ts" and
    s: "sorted (?t # ts)"
    by blast
  have "map (storedTimestamp cfg) (reconciliations cfg (h # hs) st) = map Some (?t # ts)"
    using ts storedTimestamp_stringify [OF st] by simp
  moreover have "sorted (t0 # ?t # ts)" using le s by auto
  moreover have "\<forall>s \<in> set (reconciliations cfg (h # hs) st). isLeader s"
    using l c by (simp add: claimed_def)
  ultimately show ?case by blast
qed

text \<open>
  Claim C8. A settled follower (the store holds a record of another tab, the follower's
  state is the one a follower pass leaves) that reconciles any number of times, each time
  reading the store and finding the record not expired, writes nothing and keeps its
  state; only the record of callbacks grows, by the \<^verbatim>\<open>onTabDetected\<close> of each pass. A tab
  whose own record is in the store and that reconciles any number of times, at times that
  do not decrease from the record's timestamp on, is leader after each pass, and the
  timestamps found in the store after the passes do not decrease. (The store changes only
  through these calls: there is no competing writer.)
\<close>

theorem reconciliation_idempotent:
  "(storage st (storageKey cfg) = Some (Json r) \<and> id_of r = Some (JStr i) \<and> i \<noteq> tabId st \<and>
    timestamp_of r = Some (JNum t) \<and>
    (\<forall>h \<in> set hs. \<not> getItemThrows h \<and> now h - t \<le> timeout cfg) \<and>
    \<not> isLeader st \<and> tabCount st = 2 \<and> \<not> isChecking st \<longrightarrow>
      (\<forall>s \<in> set (reconciliations cfg hs st).
          storage s = storage st \<and> s\<lparr>calls := calls st\<rparr> = st)) \<and>
   (storage st (storageKey cfg) = Some (stringify \<lparr>id_rec = tabId st, timestamp_rec = t0\<rparr>) \<and>
    sorted (t0 # map now hs) \<longrightarrow>
      (\<forall>s \<in> set (reconciliations cfg hs st). isLeader s) \<and>
      (\<exists>ts. map (storedTimestamp cfg) (reconciliations cfg hs st) = map Some ts \<and>
            sorted (t0 # ts)))"
proof (intro conjI impI)
  assume a: "storage st (storageKey cfg) = Some (Json r) \<and> id_of r = Some (JStr i) \<and> i \<noteq> tabId st \<and>
    timestamp_of r = Some (JNum t) \<and>
    (\<forall>h \<in> set hs. \<not> getItemThrows h \<and> now h - t \<le> timeout cfg) \<and>
    \<not> isLeader st \<and> tabCount st = 2 \<and> \<not> isChecking st"
  then have f: "\<forall>s \<in> set (reconciliations cfg hs st). s\<lparr>calls := calls st\<rparr> = st"
    by (intro settled_follower [of st cfg r i t hs]) auto
  show "\<forall>s \<in> set (reconciliations cfg hs st). storage s = storage st \<and> s\<lparr>calls := calls st\<rparr> = st"
  proof
    fix s assume "s \<in> set (reconciliations cfg hs st)"
    with f have e: "s\<lparr>calls := calls st\<rparr> = st" by blast
    have "storage s = storage st"
      using arg_cong [OF e, of storage] by simp
    with e show "storage s = storage st \<and> s\<lparr>calls := calls st\<rparr> = st" by simp
  qed
next
  assume "storage st (storageKey cfg) = Some (stringify \<lparr>id_rec = tabId st, timestamp_rec = t0\<rparr>) \<and>
    sorted (t0 # map now hs)"
  then show "\<forall>s \<in> set (reconciliations cfg hs st). isLeader s"
    using steady_leader [of st cfg t0 hs] by blast
next
  assume "storage st (storageKey cfg) = Some (stringify \<lparr>id_rec = tabId st, timestamp_rec = t0\<rparr>) \<and>
    sorted (t0 # map now hs)"
  then show "\<exists>ts. map (storedTimestamp cfg) (reconciliations cfg hs st) = map Some ts \<and>
            sorted (t0 # ts)"
    using steady_leader [of st cfg t0 hs] by blast
qed

text \<open>
  Tab \<open>B\<close> following the record \<^verbatim>\<open>{A, 0}\<close> at times 2000 and 3000 with a timeout of 5000,
  and tab \<open>A\<close> renewing its record of time 1000 at times 2000 and 3000.
\<close>

theorem reconciliation_idempotent_witness:
  "list_all (\<lambda>s. storage s = storage followerB \<and> s\<lparr>calls := calls followerB\<rparr> = followerB)
     (reconciliations scenario_config [working 2000, working 3000] followerB) \<and>
   list_all isLeader (reconciliations DEFAULT_CONFIG [working 2000, working 3000] leaderA) \<and>
   map (storedTimestamp DEFAULT_CONFIG)
     (reconciliations DEFAULT_CONFIG [working 2000, working 3000] leaderA) = [Some 2000, Some 3000]"
proof -
  have f: "storage followerB (storageKey scenario_config) =
             Some (Json (JObj [(''id'', JStr ''A''), (''timestamp'', JNum 0)])) \<and>
           id_of (JObj [(''id'', JStr ''A''), (''timestamp'', JNum 0)]) = Some (JStr ''A'') \<and>
           ''A'' \<noteq> tabId followerB \<and>
           timestamp_of (JObj [(''id'', JStr ''A''), (''timestamp'', JNum 0)]) = Some (JNum 0) \<and>
           (\<forall>h \<in> set [working 2000, working 3000].
               \<not> getItemThrows h \<and> now h - 0 \<le> timeout scenario_config) \<and>
           \<not> isLeader followerB \<and> tabCount followerB = 2 \<and> \<not> isChecking followerB"
    by (simp add: followerB_def tab_with_def mount_def stringify_def storageKey_def
        scenario_config_def DEFAULT_CONFIG_def working_def)
  have l: "storage leaderA (storageKey DEFAULT_CONFIG) =
             Some (stringify \<lparr>id_rec = tabId leaderA, timestamp_rec = 1000\<rparr>) \<and>
           sorted (1000 # map now [working 2000, working 3000])"
    by (simp add: leaderA_def tab_with_def mount_def working_def)
  have v: "map (storedTimestamp DEFAULT_CONFIG)
     (reconciliations DEFAULT_CONFIG [working 2000, working 3000] leaderA) = [Some 2000, Some 3000]"
    by code_simp
  show ?thesis
    using reconciliation_idempotent
        [of followerB scenario_config "JObj [(''id'', JStr ''A''), (''timestamp'', JNum 0)]" "''A''" 0
            "[working 2000, working 3000]"]
      reconciliation_idempotent
        [of leaderA DEFAULT_CONFIG _ _ _ "[working 2000, working 3000]" 1000]
      f l v
    unfolding list_all_iff by blast
qed

end
